theory Spec2Isabelle
  imports Main "HOL-Library.AList"
begin

section \<open>Python values used by the program\<close>

text \<open>
  Text is a list of characters. A character stands for one code point below 256, so
  the whitespace that \<^verbatim>\<open>str.strip()\<close> removes is Python's whitespace set restricted
  to that range: TAB, LF, VT, FF, CR, the separators 0x1C to 0x1F, space, NEL (0x85)
  and the no-break space (0xA0).
\<close>

definition whitespace :: "char list" where
  "whitespace = [CHR 0x09, CHR 0x0A, CHR 0x0B, CHR 0x0C, CHR 0x0D,
                 CHR 0x1C, CHR 0x1D, CHR 0x1E, CHR 0x1F, CHR 0x20, CHR 0x85, CHR 0xA0]"

definition is_space :: "char \<Rightarrow> bool" where
  "is_space c = (c \<in> set whitespace)"

text \<open>\<^verbatim>\<open>s.strip()\<close>: leading and trailing whitespace removed.\<close>

definition strip :: "string \<Rightarrow> string" where
  "strip s = rev (dropWhile is_space (rev (dropWhile is_space s)))"

text \<open>
  \<^verbatim>\<open>s.split('\n')\<close>: one piece per newline plus one, empty pieces kept, so the
  result always has a first element. The scan keeps the piece being read, reversed,
  and closes it at each newline and at the end.
\<close>

fun split_nl_from :: "string \<Rightarrow> string \<Rightarrow> string list" where
  "split_nl_from piece [] = [rev piece]"
| "split_nl_from piece (c # cs) =
     (if c = CHR 0x0A then rev piece # split_nl_from [] cs
      else split_nl_from (c # piece) cs)"

definition split_nl :: "string \<Rightarrow> string list" where
  "split_nl s = split_nl_from [] s"

text \<open>\<^verbatim>\<open>str(n)\<close> for an integer: decimal digits, a minus sign when negative.\<close>

fun str_nat :: "nat \<Rightarrow> string" where
  "str_nat n =
     (if n < 10 then [''0123456789'' ! n]
      else str_nat (n div 10) @ [''0123456789'' ! (n mod 10)])"

declare str_nat.simps [simp del]

definition str_int :: "int \<Rightarrow> string" where
  "str_int i = (if i < 0 then CHR ''-'' # str_nat (nat (- i)) else str_nat (nat i))"

text \<open>
  Truth value of an optional string in a condition (\<^verbatim>\<open>if self.ipv4:\<close>):
  \<^verbatim>\<open>None\<close> and the empty string are false.
\<close>

fun truthy :: "string option \<Rightarrow> bool" where
  "truthy None = False"
| "truthy (Some s) = (s \<noteq> [])"

section \<open>Effects\<close>

text \<open>
  The result dictionary of one update attempt, with the keys the source writes.
\<close>

record result =
  success :: bool
  message :: string
  ipv4 :: "string option"
  ipv6 :: "string option"
  timestamp :: string

datatype log_level = DEBUG | INFO | WARNING | ERROR

text \<open>
  What a function does besides returning: the HTTP requests it issues (URL and query
  parameters, in dictionary insertion order), the log records it writes and the
  results it emits on the \<^verbatim>\<open>update_complete\<close> signal, in the order they happen.
\<close>

type_synonym params = "(string \<times> string) list"

datatype event =
    Request string params
  | Log log_level string
  | Emit result

text \<open>
  \<^verbatim>\<open>requests.get\<close> either raises (the string is \<^verbatim>\<open>str(e)\<close>) or returns a response
  with its \<^verbatim>\<open>status_code\<close> and \<^verbatim>\<open>text\<close>. The network is what each URL answers to a
  given parameter dictionary; one update attempt asks each URL at most once.
\<close>

datatype http_outcome = Raises string | Response int string

type_synonym network = "string \<Rightarrow> params \<Rightarrow> http_outcome"

section \<open>ip_utils.py\<close>

definition ipv4_services :: "string list" where
  "ipv4_services =
     [''https://api.ipify.org'', ''https://ipv4.icanhazip.com'', ''https://v4.ident.me'']"

definition ipv6_services :: "string list" where
  "ipv6_services =
     [''https://api6.ipify.org'', ''https://ipv6.icanhazip.com'', ''https://v6.ident.me'']"

text \<open>
  The \<^verbatim>\<open>for service in services\<close> loop of \<^verbatim>\<open>get_ipv4\<close>, by recursion on the services
  still to try; the empty list is the code after the loop.
\<close>

fun get_ipv4_loop :: "network \<Rightarrow> string list \<Rightarrow> string option \<times> event list" where
  "get_ipv4_loop net [] =
     (None, [Log ERROR ''Failed to retrieve IPv4 address from any service''])"
| "get_ipv4_loop net (service # rest) =
     (case net service [] of
        Raises e \<Rightarrow>
          (let (r, evs) = get_ipv4_loop net rest
           in (r, Request service [] #
                  Log WARNING (''Failed to get IPv4 from '' @ service @ '': '' @ e) # evs))
      | Response status_code text \<Rightarrow>
          if status_code = 200 then
            (let ip = strip text
             in (Some ip, [Request service [], Log INFO (''Retrieved IPv4 address: '' @ ip)]))
          else
            (let (r, evs) = get_ipv4_loop net rest
             in (r, Request service [] # evs)))"

definition get_ipv4 :: "network \<Rightarrow> string option \<times> event list" where
  "get_ipv4 net = get_ipv4_loop net ipv4_services"

fun get_ipv6_loop :: "network \<Rightarrow> string list \<Rightarrow> string option \<times> event list" where
  "get_ipv6_loop net [] = (None, [Log WARNING ''No IPv6 address detected''])"
| "get_ipv6_loop net (service # rest) =
     (case net service [] of
        Raises e \<Rightarrow>
          (let (r, evs) = get_ipv6_loop net rest
           in (r, Request service [] #
                  Log DEBUG (''Failed to get IPv6 from '' @ service @ '': '' @ e) # evs))
      | Response status_code text \<Rightarrow>
          if status_code = 200 then
            (let ip = strip text
             in (Some ip, [Request service [], Log INFO (''Retrieved IPv6 address: '' @ ip)]))
          else
            (let (r, evs) = get_ipv6_loop net rest
             in (r, Request service [] # evs)))"

definition get_ipv6 :: "network \<Rightarrow> string option \<times> event list" where
  "get_ipv6 net = get_ipv6_loop net ipv6_services"

section \<open>duck_dns_updater.py\<close>

text \<open>
  The attributes of an \<^verbatim>\<open>UpdateThread\<close>; \<open>self_ipv4\<close> and \<open>self_ipv6\<close> are
  \<^verbatim>\<open>self.ipv4\<close> and \<^verbatim>\<open>self.ipv6\<close>, the operator's overrides (\<^verbatim>\<open>None\<close> by default).
\<close>

record UpdateThread =
  domains :: string
  token :: string
  update_ipv4 :: bool
  update_ipv6 :: bool
  self_ipv4 :: "string option"
  self_ipv6 :: "string option"

definition duckdns_url :: string where
  "duckdns_url = ''https://www.duckdns.org/update''"

text \<open>
  \<^verbatim>\<open>update_duckdns\<close>, lines 57 to 73: the parameter dictionary of the request, with
  the events of the IPv4 discovery when it runs. \<^verbatim>\<open>params[k] = v\<close> on a dictionary
  is \<open>AList.update\<close>: a new key goes to the end.
\<close>

definition handle_ip_settings :: "network \<Rightarrow> UpdateThread \<Rightarrow> params \<times> event list" where
  "handle_ip_settings net self =
     (let params = [(''domains'', domains self), (''token'', token self), (''verbose'', ''true'')];
          (params, evs) =
            (if update_ipv4 self then
               (if truthy (self_ipv4 self) then
                  (AList.update ''ip'' (the (self_ipv4 self)) params, [])
                else
                  (let (detected_ipv4, evs) = get_ipv4 net
                   in if truthy detected_ipv4 then
                        (AList.update ''ip'' (the detected_ipv4) params, evs)
                      else (params, evs)))
             else (params, []));
          params =
            (if update_ipv6 self \<and> truthy (self_ipv6 self) then
               AList.update ''ipv6'' (the (self_ipv6 self)) params
             else params)
      in (params, evs))"

text \<open>
  Lines 78 to 107, the part of the \<^verbatim>\<open>try\<close> block after the request has returned a
  response. \<open>Inl\<close> is an exception raised there: \<^verbatim>\<open>lines[0]\<close> raises on an empty
  list. \<open>now\<close> is \<^verbatim>\<open>datetime.now().isoformat()\<close>, read when the result is built.
\<close>

definition interpret_response :: "string \<Rightarrow> int \<Rightarrow> string \<Rightarrow> string + result" where
  "interpret_response now status_code text =
     (if status_code = 200 then
        (let lines = split_nl (strip text)
         in case lines of
              [] \<Rightarrow> Inl ''list index out of range''
            | first # _ \<Rightarrow>
                if first = ''OK'' then
                  (let ipv4 = (if length lines > 1 \<and> lines ! 1 \<noteq> [] \<and> lines ! 1 \<noteq> ''NOCHANGE''
                               then Some (lines ! 1) else None);
                       ipv6 = (if length lines > 2 \<and> lines ! 2 \<noteq> [] \<and> lines ! 2 \<noteq> ''NOCHANGE''
                               then Some (lines ! 2) else None);
                       update_status = (if length lines > 3 then lines ! 3 else ''UPDATED'')
                   in Inr \<lparr>success = True,
                           message = ''Update successful: '' @ update_status,
                           ipv4 = ipv4, ipv6 = ipv6, timestamp = now\<rparr>)
                else
                  Inr \<lparr>success = False,
                       message = ''Update failed: Invalid response'',
                       ipv4 = None, ipv6 = None, timestamp = now\<rparr>)
      else
        Inr \<lparr>success = False,
             message = ''Update failed: HTTP '' @ str_int status_code,
             ipv4 = None, ipv6 = None, timestamp = now\<rparr>)"

text \<open>
  \<^verbatim>\<open>update_duckdns\<close>. The \<^verbatim>\<open>try\<close> block is the request followed by
  \<open>interpret_response\<close>; its \<^verbatim>\<open>except Exception\<close> handler turns whatever was raised
  into a failure result. \<open>Inl\<close> in the returned value would be an exception that
  leaves the method.
\<close>

definition update_duckdns ::
  "network \<Rightarrow> string \<Rightarrow> UpdateThread \<Rightarrow> (string + result) \<times> event list" where
  "update_duckdns net now self =
     (let (params, evs) = handle_ip_settings net self;
          tried = (case net duckdns_url params of
                     Raises e \<Rightarrow> Inl e
                   | Response status_code text \<Rightarrow> interpret_response now status_code text)
      in case tried of
           Inr r \<Rightarrow> (Inr r, evs @ [Request duckdns_url params])
         | Inl e \<Rightarrow>
             (Inr \<lparr>success = False, message = ''Network error: '' @ e,
                   ipv4 = None, ipv6 = None, timestamp = now\<rparr>,
              evs @ [Request duckdns_url params, Log ERROR (''Network error: '' @ e)]))"

text \<open>
  \<^verbatim>\<open>UpdateThread.run\<close>: the result goes out on the \<^verbatim>\<open>update_complete\<close> signal; an
  exception from \<^verbatim>\<open>update_duckdns\<close> is logged and a failure result emitted instead.
\<close>

definition run :: "network \<Rightarrow> string \<Rightarrow> UpdateThread \<Rightarrow> event list" where
  "run net now self =
     (case update_duckdns net now self of
        (Inr r, evs) \<Rightarrow> evs @ [Emit r]
      | (Inl e, evs) \<Rightarrow>
          evs @ [Log ERROR (''Update failed: '' @ e),
                 Emit \<lparr>success = False, message = ''Update failed: '' @ e,
                       ipv4 = None, ipv6 = None, timestamp = now\<rparr>])"

section \<open>config_manager.py\<close>

datatype json =
    JNull
  | JBool bool
  | JInt int
  | JStr string
  | JList "json list"
  | JDict "(string \<times> json) list"

text \<open>
  A file as a reader finds it: not there, there but \<^verbatim>\<open>open\<close> or \<^verbatim>\<open>json.load\<close>
  raises (with \<^verbatim>\<open>str(e)\<close>), or there and holding a value.
\<close>

datatype 'a disk_file = Missing | Corrupt string | Holds 'a

definition get_default_config :: json where
  "get_default_config =
     JDict [(''domains'', JStr []),
            (''token'', JStr []),
            (''update_ipv4'', JBool True),
            (''use_custom_ipv4'', JBool False),
            (''custom_ipv4'', JStr []),
            (''update_ipv6'', JBool False),
            (''custom_ipv6'', JStr []),
            (''auto_update'', JBool False),
            (''update_interval'', JInt 30),
            (''minimize_to_tray'', JBool True),
            (''start_minimized'', JBool False)]"

definition load_config :: "json disk_file \<Rightarrow> json \<times> event list" where
  "load_config config_file =
     (case config_file of
        Holds config \<Rightarrow> (config, [Log INFO ''Configuration loaded successfully''])
      | Corrupt e \<Rightarrow> (get_default_config, [Log ERROR (''Error loading configuration: '' @ e)])
      | Missing \<Rightarrow>
          (get_default_config, [Log INFO ''No configuration file found, using defaults'']))"

text \<open>
  \<^verbatim>\<open>save_history\<close> receives a reference to the caller's list. The store holds the
  list objects, a reference is a position in it, and slicing allocates a new object.
  The machine is the store together with the history file.
\<close>

record 'a machine =
  heap :: "'a list list"
  history_file :: "'a list disk_file"

text \<open>\<^verbatim>\<open>xs[-n:]\<close> on a list value: the last \<open>n\<close> elements, all of them when there are fewer.\<close>

definition slice_last :: "nat \<Rightarrow> 'a list \<Rightarrow> 'a list" where
  "slice_last n xs = drop (length xs - n) xs"

definition alloc :: "'a list \<Rightarrow> 'a machine \<Rightarrow> nat \<times> 'a machine" where
  "alloc xs m = (length (heap m), m\<lparr>heap := heap m @ [xs]\<rparr>)"

text \<open>
  What writing the file does: it succeeds, or \<^verbatim>\<open>open\<close> or \<^verbatim>\<open>json.dump\<close> raises
  (with \<^verbatim>\<open>str(e)\<close>) and leaves the file in the given state.
\<close>

datatype 'a write_outcome = WriteOk | WriteRaises string "'a list disk_file"

definition save_history ::
  "'a write_outcome \<Rightarrow> nat \<Rightarrow> 'a machine \<Rightarrow> bool \<times> 'a machine \<times> event list" where
  "save_history w history m =
     (let (history, m) =
            (if length (heap m ! history) > 1000
             then alloc (slice_last 1000 (heap m ! history)) m
             else (history, m))
      in case w of
           WriteOk \<Rightarrow>
             (True, m\<lparr>history_file := Holds (heap m ! history)\<rparr>,
              [Log INFO (''Saved '' @ str_nat (length (heap m ! history)) @ '' history entries'')])
         | WriteRaises e left \<Rightarrow>
             (False, m\<lparr>history_file := left\<rparr>,
              [Log ERROR (''Error saving history: '' @ e)]))"

section \<open>Observations on a run\<close>

text \<open>
  What the theorems read off a trace of events: the URLs requested, the parameter
  dictionaries sent to the provider, the results emitted and the messages logged at
  a given level, each in the order of the trace.
\<close>

fun requested_urls :: "event list \<Rightarrow> string list" where
  "requested_urls [] = []"
| "requested_urls (Request url ps # evs) = url # requested_urls evs"
| "requested_urls (_ # evs) = requested_urls evs"

fun provider_requests :: "event list \<Rightarrow> params list" where
  "provider_requests [] = []"
| "provider_requests (Request url ps # evs) =
     (if url = duckdns_url then ps # provider_requests evs else provider_requests evs)"
| "provider_requests (_ # evs) = provider_requests evs"

fun emitted :: "event list \<Rightarrow> result list" where
  "emitted [] = []"
| "emitted (Emit r # evs) = r # emitted evs"
| "emitted (_ # evs) = emitted evs"

fun logged :: "log_level \<Rightarrow> event list \<Rightarrow> string list" where
  "logged lvl [] = []"
| "logged lvl (Log l msg # evs) = (if l = lvl then msg # logged lvl evs else logged lvl evs)"
| "logged lvl (_ # evs) = logged lvl evs"

text \<open>The trimmed body of an answer with status 200; nothing for any other outcome.\<close>

fun ok_body :: "http_outcome \<Rightarrow> string option" where
  "ok_body (Raises e) = None"
| "ok_body (Response status_code text) = (if status_code = 200 then Some (strip text) else None)"

text \<open>
  The discovery contract in the specification's words, to compare \<open>get_ipv4\<close> with:
  the first successful, non-empty, trimmed response body, in the order of the services.
\<close>

fun spec_first_nonempty_body :: "network \<Rightarrow> string list \<Rightarrow> string option" where
  "spec_first_nonempty_body net [] = None"
| "spec_first_nonempty_body net (service # rest) =
     (case ok_body (net service []) of
        None \<Rightarrow> spec_first_nonempty_body net rest
      | Some ip \<Rightarrow> if ip \<noteq> [] then Some ip else spec_first_nonempty_body net rest)"

text \<open>
  The settings fields that the specification's data model names, and a document that
  has all of them.
\<close>

definition settings_fields :: "string list" where
  "settings_fields =
     [''domains'', ''token'', ''update_ipv4'', ''use_custom_ipv4'', ''custom_ipv4'',
      ''update_ipv6'', ''custom_ipv6'', ''auto_update'', ''update_interval'']"

fun fully_populated :: "json \<Rightarrow> bool" where
  "fully_populated (JDict kvs) = list_all (\<lambda>k. map_of kvs k \<noteq> None) settings_fields"
| "fully_populated _ = False"

section \<open>Concrete inputs\<close>

definition thread_auto :: UpdateThread where
  "thread_auto =
     \<lparr>domains = ''myhost'', token = ''secret'', update_ipv4 = True, update_ipv6 = True,
      self_ipv4 = None, self_ipv6 = None\<rparr>"

definition thread_v6_only :: UpdateThread where
  "thread_v6_only =
     \<lparr>domains = ''myhost'', token = ''secret'', update_ipv4 = False, update_ipv6 = True,
      self_ipv4 = Some ''192.0.2.1'', self_ipv6 = Some ''::1''\<rparr>"

text \<open>Every echo service answers with the address; the provider accepts the update.\<close>

definition net_updated :: network where
  "net_updated url ps =
     (if url = duckdns_url then Response 200 ''OK\<newline>1.2.3.4\<newline>\<newline>UPDATED''
      else Response 200 ''1.2.3.4\<newline>'')"

text \<open>The echo services time out; the provider answers with status 500.\<close>

definition net_500 :: network where
  "net_500 url ps =
     (if url = duckdns_url then Response 500 ''Internal Server Error''
      else Raises ''timed out'')"

text \<open>Nothing can be reached.\<close>

definition net_down :: network where
  "net_down url ps = Raises ''Connection refused''"

text \<open>The first echo service answers 200 with a blank body, the others with an address.\<close>

definition net_blank :: network where
  "net_blank url ps =
     (if url = ''https://api.ipify.org'' then Response 200 ''\<newline>''
      else Response 200 ''203.0.113.7\<newline>'')"

text \<open>A store whose only list has 1500 entries, and no history file yet.\<close>

definition m_long :: "nat machine" where
  "m_long = \<lparr>heap = [[0..<1500]], history_file = Missing\<rparr>"

text \<open>A settings file that parses and has two of the fields.\<close>

definition partial_config :: json where
  "partial_config = JDict [(''domains'', JStr ''myhost''), (''token'', JStr ''secret'')]"

definition clock :: string where
  "clock = ''2024-05-01T12:00:00.000000''"

section \<open>Lemmas on traces\<close>

lemma requested_urls_append: "requested_urls (xs @ ys) = requested_urls xs @ requested_urls ys"
  by (induction xs rule: requested_urls.induct) auto

lemma provider_requests_append:
  "provider_requests (xs @ ys) = provider_requests xs @ provider_requests ys"
  by (induction xs rule: provider_requests.induct) auto

lemma emitted_append: "emitted (xs @ ys) = emitted xs @ emitted ys"
  by (induction xs rule: emitted.induct) auto

lemma split_nl_from_nonempty: "split_nl_from piece s \<noteq> []"
  by (induction s arbitrary: piece) auto

lemma split_nl_nonempty: "split_nl s \<noteq> []"
  by (simp add: split_nl_def split_nl_from_nonempty)

lemma loop_result:
  "fst (get_ipv4_loop net svcs) =
     (case List.map_filter (\<lambda>s. ok_body (net s [])) svcs of [] \<Rightarrow> None | ip # _ \<Rightarrow> Some ip)"
  by (induction svcs) (auto simp: Let_def List.map_filter_simps split: http_outcome.splits prod.splits)

lemma loop_requests:
  "requested_urls (snd (get_ipv4_loop net svcs)) =
     takeWhile (\<lambda>s. ok_body (net s []) = None) svcs
     @ take 1 (dropWhile (\<lambda>s. ok_body (net s []) = None) svcs)"
  by (induction svcs) (auto simp: Let_def split: http_outcome.splits prod.splits)

lemma loop_warnings:
  "logged WARNING (snd (get_ipv4_loop net svcs)) =
     concat (map (\<lambda>s. case net s [] of
                         Raises e \<Rightarrow> [''Failed to get IPv4 from '' @ s @ '': '' @ e]
                       | Response status_code text \<Rightarrow> [])
                 (takeWhile (\<lambda>s. ok_body (net s []) = None) svcs))"
  by (induction svcs) (auto simp: Let_def split: http_outcome.splits prod.splits)

lemma loop_none:
  "(fst (get_ipv4_loop net svcs) = None) = list_all (\<lambda>s. ok_body (net s []) = None) svcs"
  by (induction svcs) (auto simp: Let_def split: http_outcome.splits prod.splits)

lemma loop_provider_requests:
  "duckdns_url \<notin> set svcs \<Longrightarrow> provider_requests (snd (get_ipv4_loop net svcs)) = []"
  by (induction svcs) (auto simp: Let_def split: http_outcome.splits prod.splits)

lemma loop_emitted: "emitted (snd (get_ipv4_loop net svcs)) = []"
  by (induction svcs) (auto simp: Let_def split: http_outcome.splits prod.splits)

lemma loop_urls_subset: "set (requested_urls (snd (get_ipv4_loop net svcs))) \<subseteq> set svcs"
  by (induction svcs) (auto simp: Let_def split: http_outcome.splits prod.splits)

text \<open>
  A call of \<open>get_ipv6\<close> always asks the first IPv6 echo service, so a trace without
  a request to an IPv6 echo service has no IPv6 discovery in it.
\<close>

lemma get_ipv6_asks_first_service:
  "\<exists>more. requested_urls (snd (get_ipv6 net)) = ''https://api6.ipify.org'' # more"
  by (auto simp: get_ipv6_def ipv6_services_def Let_def split: http_outcome.splits prod.splits)

lemma get_ipv6_urls_subset: "set (requested_urls (snd (get_ipv6_loop net svcs))) \<subseteq> set svcs"
  by (induction svcs) (auto simp: Let_def split: http_outcome.splits prod.splits)

section \<open>Lemmas on the update engine\<close>

lemma handle_ip:
  "map_of (fst (handle_ip_settings net self)) ''ip'' =
     (if update_ipv4 self then
        (if truthy (self_ipv4 self) then self_ipv4 self
         else if truthy (fst (get_ipv4 net)) then fst (get_ipv4 net) else None)
      else None)"
  by (cases "self_ipv4 self"; cases "fst (get_ipv4 net)")
     (auto simp: handle_ip_settings_def Let_def update_conv' split: prod.splits)

lemma handle_ipv6:
  "map_of (fst (handle_ip_settings net self)) ''ipv6'' =
     (if update_ipv6 self \<and> truthy (self_ipv6 self) then self_ipv6 self else None)"
  by (cases "self_ipv6 self")
     (auto simp: handle_ip_settings_def Let_def update_conv' split: prod.splits)

lemma handle_events:
  "snd (handle_ip_settings net self) =
     (if update_ipv4 self \<and> \<not> truthy (self_ipv4 self) then snd (get_ipv4 net) else [])"
  by (auto simp: handle_ip_settings_def Let_def split: prod.splits)

lemma update_events:
  "\<exists>tail. snd (update_duckdns net now self) =
      snd (handle_ip_settings net self) @ Request duckdns_url (fst (handle_ip_settings net self)) # tail
    \<and> requested_urls tail = [] \<and> provider_requests tail = [] \<and> emitted tail = []"
  by (auto simp: update_duckdns_def Let_def split: prod.splits sum.splits http_outcome.splits)

lemma update_returns: "\<exists>r. fst (update_duckdns net now self) = Inr r"
  by (auto simp: update_duckdns_def Let_def split: prod.splits sum.splits http_outcome.splits)

lemma duckdns_not_ipv4_service: "duckdns_url \<notin> set ipv4_services"
  by (simp add: duckdns_url_def ipv4_services_def)

lemma handle_provider_requests: "provider_requests (snd (handle_ip_settings net self)) = []"
  by (simp add: handle_events get_ipv4_def loop_provider_requests duckdns_not_ipv4_service)

lemma update_provider_requests:
  "provider_requests (snd (update_duckdns net now self)) = [fst (handle_ip_settings net self)]"
proof -
  obtain tail where
    "snd (update_duckdns net now self) =
       snd (handle_ip_settings net self) @ Request duckdns_url (fst (handle_ip_settings net self)) # tail"
    and "provider_requests tail = []"
    using update_events by blast
  then show ?thesis
    by (simp add: provider_requests_append handle_provider_requests)
qed

lemma update_requested_urls:
  "requested_urls (snd (update_duckdns net now self)) =
     requested_urls (snd (handle_ip_settings net self)) @ [duckdns_url]"
proof -
  obtain tail where
    "snd (update_duckdns net now self) =
       snd (handle_ip_settings net self) @ Request duckdns_url (fst (handle_ip_settings net self)) # tail"
    and "requested_urls tail = []"
    using update_events by blast
  then show ?thesis
    by (simp add: requested_urls_append)
qed

lemma update_emitted: "emitted (snd (update_duckdns net now self)) = []"
proof -
  obtain tail where
    "snd (update_duckdns net now self) =
       snd (handle_ip_settings net self) @ Request duckdns_url (fst (handle_ip_settings net self)) # tail"
    and "emitted tail = []"
    using update_events by blast
  then show ?thesis
    by (simp add: emitted_append handle_events get_ipv4_def loop_emitted)
qed

lemma handle_urls_subset:
  "set (requested_urls (snd (handle_ip_settings net self))) \<subseteq> set ipv4_services"
  using loop_urls_subset [of net ipv4_services]
  by (simp add: handle_events get_ipv4_def)

lemma interpret_200:
  "interpret_response now 200 body =
     (let lines = split_nl (strip body) in
      if lines ! 0 = ''OK'' then
        Inr \<lparr>success = True,
             message = ''Update successful: '' @ (if 3 < length lines then lines ! 3 else ''UPDATED''),
             ipv4 = (if 1 < length lines \<and> lines ! 1 \<noteq> [] \<and> lines ! 1 \<noteq> ''NOCHANGE''
                     then Some (lines ! 1) else None),
             ipv6 = (if 2 < length lines \<and> lines ! 2 \<noteq> [] \<and> lines ! 2 \<noteq> ''NOCHANGE''
                     then Some (lines ! 2) else None),
             timestamp = now\<rparr>
      else
        Inr \<lparr>success = False, message = ''Update failed: Invalid response'',
             ipv4 = None, ipv6 = None, timestamp = now\<rparr>)"
proof (cases "split_nl (strip body)")
  case Nil
  then show ?thesis using split_nl_nonempty by blast
next
  case (Cons first rest)
  then show ?thesis
    by (simp add: interpret_response_def Let_def)
qed

lemma interpret_returns: "\<exists>r. interpret_response now status_code text = Inr r"
proof (cases "status_code = 200")
  case True
  then show ?thesis by (simp add: interpret_200 Let_def)
next
  case False
  then show ?thesis by (simp add: interpret_response_def)
qed

lemma update_on_response:
  assumes "net duckdns_url (fst (handle_ip_settings net self)) = Response status_code text"
  shows "fst (update_duckdns net now self) = interpret_response now status_code text"
proof -
  obtain r where "interpret_response now status_code text = Inr r"
    using interpret_returns by blast
  then show ?thesis using assms
    by (cases "handle_ip_settings net self") (simp add: update_duckdns_def Let_def)
qed

lemma update_on_raise:
  assumes "net duckdns_url (fst (handle_ip_settings net self)) = Raises e"
  shows "fst (update_duckdns net now self) =
           Inr \<lparr>success = False, message = ''Network error: '' @ e,
                ipv4 = None, ipv6 = None, timestamp = now\<rparr>"
  using assms by (cases "handle_ip_settings net self") (simp add: update_duckdns_def Let_def)

section \<open>Response interpretation\<close>

text \<open>
  C1. When the provider answers with status 200, the body is trimmed and split on
  newlines (there is always a first line). If the first line is \<open>OK\<close> the result
  is a success; its \<open>ipv4\<close> is the second line exactly when that line exists, is not
  empty and is not \<open>NOCHANGE\<close>, and is absent otherwise; its \<open>ipv6\<close> is the third
  line under the same condition; its message is \<open>Update successful: \<close> followed by
  the fourth line when there is one and by \<open>UPDATED\<close> otherwise. With any other
  first line the result is a failure whose message is
  \<open>Update failed: Invalid response\<close>, with both addresses absent.
\<close>

theorem update_duckdns_interprets_200:
  assumes "net duckdns_url (fst (handle_ip_settings net self)) = Response 200 body"
  shows "\<exists>r lines. lines = split_nl (strip body) \<and> lines \<noteq> []
           \<and> fst (update_duckdns net now self) = Inr r
           \<and> (if lines ! 0 = ''OK'' then
                 success r
                 \<and> (\<forall>a. (ipv4 r = Some a) =
                          (1 < length lines \<and> lines ! 1 = a \<and> a \<noteq> [] \<and> a \<noteq> ''NOCHANGE''))
                 \<and> (\<forall>a. (ipv6 r = Some a) =
                          (2 < length lines \<and> lines ! 2 = a \<and> a \<noteq> [] \<and> a \<noteq> ''NOCHANGE''))
                 \<and> message r =
                     ''Update successful: '' @ (if 3 < length lines then lines ! 3 else ''UPDATED'')
               else
                 \<not> success r \<and> message r = ''Update failed: Invalid response''
                 \<and> ipv4 r = None \<and> ipv6 r = None)"
proof -
  have u: "fst (update_duckdns net now self) = interpret_response now 200 body"
    using assms by (rule update_on_response)
  show ?thesis
  proof (cases "split_nl (strip body) ! 0 = ''OK''")
    case True
    then show ?thesis
      unfolding u interpret_200 Let_def
      by (auto simp: split_nl_nonempty)
  next
    case False
    then show ?thesis
      unfolding u interpret_200 Let_def
      by (simp add: split_nl_nonempty)
  qed
qed

theorem update_duckdns_interprets_200_witness:
  "net_updated duckdns_url (fst (handle_ip_settings net_updated thread_auto)) =
     Response 200 ''OK\<newline>1.2.3.4\<newline>\<newline>UPDATED''
   \<and> (\<exists>r. fst (update_duckdns net_updated clock thread_auto) = Inr r
          \<and> success r \<and> ipv4 r = Some ''1.2.3.4'' \<and> ipv6 r = None
          \<and> message r = ''Update successful: UPDATED'')"
proof -
  have h: "net_updated duckdns_url (fst (handle_ip_settings net_updated thread_auto)) =
             Response 200 ''OK\<newline>1.2.3.4\<newline>\<newline>UPDATED''"
    by (simp add: net_updated_def)
  have l: "split_nl (strip ''OK\<newline>1.2.3.4\<newline>\<newline>UPDATED'') =
             [''OK'', ''1.2.3.4'', [], ''UPDATED'']"
    by (simp add: split_nl_def strip_def is_space_def whitespace_def)
  have c: "fst (update_duckdns net_updated clock thread_auto) =
             Inr \<lparr>success = True, message = ''Update successful: UPDATED'',
                  ipv4 = Some ''1.2.3.4'', ipv6 = None, timestamp = clock\<rparr>"
    by (simp add: h update_on_response interpret_200 l)
  from update_duckdns_interprets_200
         [where net = net_updated and self = thread_auto and now = clock, OF h]
  obtain r where "fst (update_duckdns net_updated clock thread_auto) = Inr r"
    by (elim exE conjE)
  with c h show ?thesis by simp
qed

text \<open>
  C8. When the provider answers with a status other than 200, the result is a
  failure whose message is \<open>Update failed: HTTP \<close> followed by the status code in
  decimal, with both addresses absent.
\<close>

theorem update_duckdns_other_status:
  assumes "net duckdns_url (fst (handle_ip_settings net self)) = Response status_code body"
    and "status_code \<noteq> 200"
  shows "fst (update_duckdns net now self) =
           Inr \<lparr>success = False, message = ''Update failed: HTTP '' @ str_int status_code,
                ipv4 = None, ipv6 = None, timestamp = now\<rparr>"
  using assms by (simp add: update_on_response interpret_response_def)

theorem update_duckdns_other_status_witness:
  "net_500 duckdns_url (fst (handle_ip_settings net_500 thread_auto)) =
     Response 500 ''Internal Server Error''
   \<and> (500 :: int) \<noteq> 200
   \<and> fst (update_duckdns net_500 clock thread_auto) =
       Inr \<lparr>success = False, message = ''Update failed: HTTP 500'',
            ipv4 = None, ipv6 = None, timestamp = clock\<rparr>"
proof -
  have h: "net_500 duckdns_url (fst (handle_ip_settings net_500 thread_auto)) =
             Response 500 ''Internal Server Error''"
    by (simp add: net_500_def)
  have n: "(500 :: int) \<noteq> 200" by simp
  have s: "str_int 500 = ''500''"
    by (simp add: str_int_def str_nat.simps)
  show ?thesis
    using h n update_duckdns_other_status
                [where net = net_500 and self = thread_auto and now = clock, OF h n]
    by (simp add: s)
qed

text \<open>
  C5. \<open>update_duckdns\<close> always returns a result and never raises, and \<open>run\<close> emits
  exactly that one result. When the request to the provider raises, the result is a
  failure whose message is \<open>Network error: \<close> followed by the fault's text; when the
  provider answers with a status other than 200, or with status 200 and a first line
  other than \<open>OK\<close>, the result is a failure with the matching message.
\<close>

theorem update_duckdns_never_raises:
  "\<exists>r. fst (update_duckdns net now self) = Inr r
      \<and> emitted (run net now self) = [r]
      \<and> (case net duckdns_url (fst (handle_ip_settings net self)) of
            Raises e \<Rightarrow>
              r = \<lparr>success = False, message = ''Network error: '' @ e,
                   ipv4 = None, ipv6 = None, timestamp = now\<rparr>
          | Response status_code body \<Rightarrow>
              if status_code \<noteq> 200 then
                \<not> success r \<and> message r = ''Update failed: HTTP '' @ str_int status_code
              else if hd (split_nl (strip body)) \<noteq> ''OK'' then
                \<not> success r \<and> message r = ''Update failed: Invalid response''
              else success r)"
proof -
  obtain r where r: "fst (update_duckdns net now self) = Inr r"
    using update_returns by blast
  have "emitted (run net now self) = [r]"
    using r update_emitted [of net now self]
    by (cases "update_duckdns net now self") (simp add: run_def emitted_append)
  moreover have "case net duckdns_url (fst (handle_ip_settings net self)) of
            Raises e \<Rightarrow>
              r = \<lparr>success = False, message = ''Network error: '' @ e,
                   ipv4 = None, ipv6 = None, timestamp = now\<rparr>
          | Response status_code body \<Rightarrow>
              if status_code \<noteq> 200 then
                \<not> success r \<and> message r = ''Update failed: HTTP '' @ str_int status_code
              else if hd (split_nl (strip body)) \<noteq> ''OK'' then
                \<not> success r \<and> message r = ''Update failed: Invalid response''
              else success r"
  proof (cases "net duckdns_url (fst (handle_ip_settings net self))")
    case (Raises e)
    then show ?thesis using r update_on_raise [of net self e now] by simp
  next
    case (Response status_code body)
    have ir: "interpret_response now status_code body = Inr r"
      using r Response by (simp add: update_on_response)
    show ?thesis
    proof (cases "status_code = 200")
      case True
      have "split_nl (strip body) ! 0 = hd (split_nl (strip body))"
        by (simp add: hd_conv_nth split_nl_nonempty)
      moreover have "interpret_response now 200 body = Inr r"
        using ir True by simp
      ultimately show ?thesis using Response True
        by (auto simp: interpret_200 Let_def split: if_splits)
    next
      case False
      then show ?thesis using ir Response
        by (auto simp: interpret_response_def)
    qed
  qed
  ultimately show ?thesis using r by blast
qed

theorem update_duckdns_never_raises_witness:
  "\<exists>r. fst (update_duckdns net_down clock thread_auto) = Inr r
      \<and> emitted (run net_down clock thread_auto) = [r]
      \<and> \<not> success r \<and> message r = ''Network error: Connection refused''
      \<and> ipv4 r = None \<and> ipv6 r = None"
proof -
  have n: "net_down duckdns_url (fst (handle_ip_settings net_down thread_auto)) =
             Raises ''Connection refused''"
    by (simp add: net_down_def)
  from update_duckdns_never_raises [where net = net_down and self = thread_auto and now = clock]
  obtain r where a: "fst (update_duckdns net_down clock thread_auto) = Inr r"
    and b: "emitted (run net_down clock thread_auto) = [r]"
    and c: "case net_down duckdns_url (fst (handle_ip_settings net_down thread_auto)) of
              Raises e \<Rightarrow>
                r = \<lparr>success = False, message = ''Network error: '' @ e,
                     ipv4 = None, ipv6 = None, timestamp = clock\<rparr>
            | Response status_code body \<Rightarrow>
                if status_code \<noteq> 200 then
                  \<not> success r \<and> message r = ''Update failed: HTTP '' @ str_int status_code
                else if hd (split_nl (strip body)) \<noteq> ''OK'' then
                  \<not> success r \<and> message r = ''Update failed: Invalid response''
                else success r"
    by blast
  from c have "r = \<lparr>success = False, message = ''Network error: Connection refused'',
                      ipv4 = None, ipv6 = None, timestamp = clock\<rparr>"
    unfolding n by simp
  with a b show ?thesis by simp
qed

section \<open>Address selection\<close>

text \<open>
  C2. Exactly one request goes to the provider. With \<open>update_ipv4\<close> set, its \<open>ip\<close>
  parameter is the override when the override is present and not empty; otherwise it
  is what \<open>get_ipv4\<close> returns when that is present and not empty; otherwise there is
  no \<open>ip\<close> parameter. With \<open>update_ipv4\<close> not set there is no \<open>ip\<close> parameter,
  whatever the override.
\<close>

theorem update_duckdns_ip_parameter:
  "\<exists>ps. provider_requests (snd (update_duckdns net now self)) = [ps]
       \<and> map_of ps ''ip'' =
           (if update_ipv4 self then
              (if truthy (self_ipv4 self) then self_ipv4 self
               else if truthy (fst (get_ipv4 net)) then fst (get_ipv4 net) else None)
            else None)"
  by (simp add: update_provider_requests handle_ip)

theorem update_duckdns_ip_parameter_witness:
  "(\<exists>ps. provider_requests (snd (update_duckdns net_updated clock thread_v6_only)) = [ps]
        \<and> map_of ps ''ip'' = None)
   \<and> (\<exists>ps. provider_requests (snd (update_duckdns net_updated clock thread_auto)) = [ps]
        \<and> map_of ps ''ip'' = Some ''1.2.3.4'')
   \<and> (\<exists>ps. provider_requests (snd (update_duckdns net_500 clock thread_auto)) = [ps]
        \<and> map_of ps ''ip'' = None)"
proof -
  have a: "fst (get_ipv4 net_updated) = Some ''1.2.3.4''"
    by (simp add: get_ipv4_def ipv4_services_def net_updated_def duckdns_url_def
                  strip_def is_space_def whitespace_def Let_def)
  have b: "fst (get_ipv4 net_500) = None"
    by (simp add: get_ipv4_def ipv4_services_def net_500_def duckdns_url_def)
  show ?thesis
    using update_duckdns_ip_parameter [where net = net_updated and self = thread_v6_only and now = clock]
          update_duckdns_ip_parameter [where net = net_updated and self = thread_auto and now = clock]
          update_duckdns_ip_parameter [where net = net_500 and self = thread_auto and now = clock]
    by (auto simp: a b thread_v6_only_def thread_auto_def)
qed

text \<open>
  C3. The request to the provider has an \<open>ipv6\<close> parameter if and only if
  \<open>update_ipv6\<close> is set and the IPv6 override is present and not empty, and the
  parameter is then that override. No request of the attempt goes to an IPv6 echo
  service: there is no discovery for IPv6.
\<close>

theorem update_duckdns_ipv6_parameter:
  "\<exists>ps. provider_requests (snd (update_duckdns net now self)) = [ps]
       \<and> (''ipv6'' \<in> fst ` set ps) = (update_ipv6 self \<and> truthy (self_ipv6 self))
       \<and> map_of ps ''ipv6'' =
           (if update_ipv6 self \<and> truthy (self_ipv6 self) then self_ipv6 self else None)
       \<and> set (requested_urls (snd (update_duckdns net now self))) \<inter> set ipv6_services = {}"
proof -
  let ?ps = "fst (handle_ip_settings net self)"
  have v: "map_of ?ps ''ipv6'' =
           (if update_ipv6 self \<and> truthy (self_ipv6 self) then self_ipv6 self else None)"
    by (rule handle_ipv6)
  have "(''ipv6'' \<in> fst ` set ?ps) = (map_of ?ps ''ipv6'' \<noteq> None)"
    by (simp add: map_of_eq_None_iff)
  also have "\<dots> = (update_ipv6 self \<and> truthy (self_ipv6 self))"
    unfolding v by (cases "self_ipv6 self") auto
  finally have k: "(''ipv6'' \<in> fst ` set ?ps) = (update_ipv6 self \<and> truthy (self_ipv6 self))" .
  have "set (requested_urls (snd (update_duckdns net now self)))
          \<subseteq> set ipv4_services \<union> {duckdns_url}"
    using handle_urls_subset [of net self] by (auto simp: update_requested_urls)
  moreover have "(set ipv4_services \<union> {duckdns_url}) \<inter> set ipv6_services = {}"
    by (simp add: ipv4_services_def ipv6_services_def duckdns_url_def)
  ultimately have "set (requested_urls (snd (update_duckdns net now self))) \<inter> set ipv6_services = {}"
    by blast
  with v k show ?thesis
    by (simp add: update_provider_requests)
qed

theorem update_duckdns_ipv6_parameter_witness:
  "(\<exists>ps. provider_requests (snd (update_duckdns net_updated clock thread_auto)) = [ps]
        \<and> ''ipv6'' \<notin> fst ` set ps \<and> map_of ps ''ipv6'' = None
        \<and> set (requested_urls (snd (update_duckdns net_updated clock thread_auto)))
            \<inter> set ipv6_services = {})
   \<and> (\<exists>ps. provider_requests (snd (update_duckdns net_updated clock thread_v6_only)) = [ps]
        \<and> map_of ps ''ipv6'' = Some ''::1'')"
  using update_duckdns_ipv6_parameter [where net = net_updated and self = thread_auto and now = clock]
        update_duckdns_ipv6_parameter [where net = net_updated and self = thread_v6_only and now = clock]
  by (auto simp: thread_auto_def thread_v6_only_def)

section \<open>IP discovery\<close>

text \<open>
  C9, as the specification states it, fails: when the first echo service answers 200
  with a blank body and a later one answers with an address, \<open>get_ipv4\<close> returns the
  empty string, not the first non-empty body.
\<close>

theorem get_ipv4_returns_blank_body:
  "fst (get_ipv4 net_blank) = Some []
   \<and> spec_first_nonempty_body net_blank ipv4_services = Some ''203.0.113.7''
   \<and> fst (get_ipv4 net_blank) \<noteq> spec_first_nonempty_body net_blank ipv4_services"
  by (simp add: get_ipv4_def ipv4_services_def net_blank_def strip_def is_space_def
                whitespace_def Let_def)

text \<open>
  C9, amended. \<open>get_ipv4\<close> asks its three services in order and stops at the first
  that answers with status 200; it returns that answer's trimmed body, empty or not,
  without validating it. It returns \<open>None\<close> exactly when no service answers 200. Each
  service asked before that whose request raises leaves one WARNING record naming the
  service and the fault, and the loop goes on to the next service.
\<close>

theorem get_ipv4_first_200_body:
  "fst (get_ipv4 net) =
     (case List.map_filter (\<lambda>s. ok_body (net s [])) ipv4_services of
        [] \<Rightarrow> None | ip # _ \<Rightarrow> Some ip)
   \<and> (fst (get_ipv4 net) = None) = list_all (\<lambda>s. ok_body (net s []) = None) ipv4_services
   \<and> requested_urls (snd (get_ipv4 net)) =
       takeWhile (\<lambda>s. ok_body (net s []) = None) ipv4_services
       @ take 1 (dropWhile (\<lambda>s. ok_body (net s []) = None) ipv4_services)
   \<and> logged WARNING (snd (get_ipv4 net)) =
       concat (map (\<lambda>s. case net s [] of
                           Raises e \<Rightarrow> [''Failed to get IPv4 from '' @ s @ '': '' @ e]
                         | Response status_code body \<Rightarrow> [])
                   (takeWhile (\<lambda>s. ok_body (net s []) = None) ipv4_services))"
  unfolding get_ipv4_def
  using loop_result loop_none loop_requests loop_warnings by blast

theorem get_ipv4_first_200_body_witness:
  "fst (get_ipv4 net_500) = None
   \<and> requested_urls (snd (get_ipv4 net_500)) = ipv4_services
   \<and> logged WARNING (snd (get_ipv4 net_500)) =
       [''Failed to get IPv4 from https://api.ipify.org: timed out'',
        ''Failed to get IPv4 from https://ipv4.icanhazip.com: timed out'',
        ''Failed to get IPv4 from https://v4.ident.me: timed out'']"
proof -
  have n: "\<And>s. s \<in> set ipv4_services \<Longrightarrow> net_500 s [] = Raises ''timed out''"
    by (auto simp: ipv4_services_def net_500_def duckdns_url_def)
  have t: "takeWhile (\<lambda>s. ok_body (net_500 s []) = None) ipv4_services = ipv4_services"
    by (rule takeWhile_eq_all_conv [THEN iffD2]) (simp add: n)
  have d: "dropWhile (\<lambda>s. ok_body (net_500 s []) = None) ipv4_services = []"
    by (rule dropWhile_eq_Nil_conv [THEN iffD2]) (simp add: n)
  have a: "list_all (\<lambda>s. ok_body (net_500 s []) = None) ipv4_services"
    by (simp add: list_all_iff n)
  have m: "concat (map (\<lambda>s. case net_500 s [] of
                           Raises e \<Rightarrow> [''Failed to get IPv4 from '' @ s @ '': '' @ e]
                         | Response status_code body \<Rightarrow> []) ipv4_services) =
       [''Failed to get IPv4 from https://api.ipify.org: timed out'',
        ''Failed to get IPv4 from https://ipv4.icanhazip.com: timed out'',
        ''Failed to get IPv4 from https://v4.ident.me: timed out'']"
    by (simp add: ipv4_services_def net_500_def duckdns_url_def)
  note r = get_ipv4_first_200_body [of net_500, unfolded t d m]
  have r1: "fst (get_ipv4 net_500) = None"
    using a r [THEN conjunct2, THEN conjunct1] by simp
  have r2: "requested_urls (snd (get_ipv4 net_500)) = ipv4_services"
    using r [THEN conjunct2, THEN conjunct2, THEN conjunct1] by simp
  note r3 = r [THEN conjunct2, THEN conjunct2, THEN conjunct2]
  from r1 r2 r3 show ?thesis by (intro conjI)
qed

section \<open>Settings and history\<close>

text \<open>
  C7. When the settings file is missing, or is there but cannot be read or parsed,
  \<open>load_config\<close> returns the default document, which has every settings field, and
  writes one log record: INFO for the missing file, ERROR with the fault's text for
  the unreadable one. Both are values returned to the caller.
\<close>

theorem load_config_defaults:
  "load_config Missing =
     (get_default_config, [Log INFO ''No configuration file found, using defaults''])
   \<and> load_config (Corrupt e) =
     (get_default_config, [Log ERROR (''Error loading configuration: '' @ e)])
   \<and> fully_populated get_default_config"
  by (simp add: load_config_def get_default_config_def settings_fields_def)

theorem load_config_defaults_witness:
  "load_config (Corrupt ''Expecting value: line 1 column 1 (char 0)'') =
     (get_default_config,
      [Log ERROR ''Error loading configuration: Expecting value: line 1 column 1 (char 0)''])
   \<and> fully_populated (fst (load_config Missing))"
  using load_config_defaults [of "''Expecting value: line 1 column 1 (char 0)''"]
  by simp

text \<open>
  C6, as the specification states it, fails: a settings file that parses and holds
  only \<open>domains\<close> and \<open>token\<close> is returned as it is, without the other fields.
\<close>

theorem load_config_partial_file:
  "fst (load_config (Holds partial_config)) = partial_config
   \<and> \<not> fully_populated (fst (load_config (Holds partial_config)))"
  by (simp add: load_config_def partial_config_def settings_fields_def)

text \<open>
  C6, amended. A settings file that parses is returned exactly as stored, with no
  field added. So the loaded document has every settings field exactly when the file
  is missing or unreadable (the defaults are returned) or the stored document already
  has them all.
\<close>

theorem load_config_returns_stored:
  "fst (load_config (Holds config)) = config
   \<and> fully_populated (fst (load_config f)) =
       (case f of Holds stored \<Rightarrow> fully_populated stored | _ \<Rightarrow> True)"
  by (cases f) (simp_all add: load_config_def get_default_config_def settings_fields_def)

theorem load_config_returns_stored_witness:
  "fst (load_config (Holds partial_config)) = partial_config
   \<and> fully_populated (fst (load_config (Holds get_default_config)))
   \<and> fully_populated (fst (load_config Missing))"
  using load_config_returns_stored [of partial_config "Holds get_default_config"]
        load_config_returns_stored [of partial_config Missing]
  by (simp add: get_default_config_def settings_fields_def)

text \<open>
  C4. When the write succeeds, \<open>save_history\<close> returns \<open>True\<close> and the history file
  holds a suffix of the list it was given: the last 1000 entries, in their order, when
  the list has more than 1000, and the whole list otherwise. The stored list never
  has more than 1000 entries.
\<close>

theorem save_history_keeps_last_1000:
  "case save_history WriteOk history m of (ok, m', evs) \<Rightarrow>
     ok \<and> (\<exists>dropped kept. heap m ! history = dropped @ kept \<and> history_file m' = Holds kept
            \<and> length kept \<le> 1000
            \<and> (if 1000 < length (heap m ! history) then length kept = 1000 else dropped = []))"
proof (cases "1000 < length (heap m ! history)")
  case True
  let ?h = "heap m ! history"
  show ?thesis using True
    by (auto simp: save_history_def alloc_def slice_last_def Let_def
             intro!: exI[where x = "take (length ?h - 1000) ?h"])
next
  case False
  then show ?thesis
    by (auto simp: save_history_def)
qed

theorem save_history_keeps_last_1000_witness:
  "fst (save_history WriteOk 0 m_long)
   \<and> history_file (fst (snd (save_history WriteOk 0 m_long))) = Holds [500..<1500]"
  using save_history_keeps_last_1000 [where history = 0 and m = m_long]
  by (simp add: save_history_def m_long_def alloc_def slice_last_def)

text \<open>
  C10. \<open>save_history\<close> leaves every list of the store as it was, the caller's list
  among them: the truncated list is a new object, and only it is written to the file.
  This holds whether the write succeeds or fails.
\<close>

theorem save_history_leaves_argument:
  assumes "history < length (heap m)"
  shows "take (length (heap m)) (heap (fst (snd (save_history w history m)))) = heap m
       \<and> heap (fst (snd (save_history w history m))) ! history = heap m ! history"
  using assms
  by (cases w) (auto simp: save_history_def alloc_def Let_def nth_append)

theorem save_history_leaves_argument_witness:
  "0 < length (heap m_long)
   \<and> heap (fst (snd (save_history WriteOk 0 m_long))) ! 0 = [0..<1500]
   \<and> history_file (fst (snd (save_history WriteOk 0 m_long))) = Holds [500..<1500]"
proof -
  have h: "0 < length (heap m_long)" by (simp add: m_long_def)
  have f: "history_file (fst (snd (save_history WriteOk 0 m_long))) = Holds [500..<1500]"
    by (simp add: save_history_def m_long_def alloc_def slice_last_def)
  have "heap m_long ! 0 = [0..<1500]" by (simp add: m_long_def)
  with h f save_history_leaves_argument [OF h, of WriteOk] show ?thesis by simp
qed

end
